theory Spec2Isabelle
  imports Main
begin

section \<open>The RAG sample (samples/rag.py)\<close>

text \<open>
  The script is a Streamlit page. Streamlit runs the whole script from top to bottom on
  every user interaction; only \<^verbatim>\<open>st.session_state\<close> survives from one run to the
  next. The script calls five collaborators that live outside the repository: the
  file system (\<^verbatim>\<open>Path.exists\<close>), the PDF loader, the text splitter, the FAISS index
  with its Ollama embedder, and the Ollama language model. They are parameters of the
  model (the record \<open>env\<close> below); what the script itself does with them is embedded
  function by function.

  Three things are left out. The fixed parts of the page (the bare string of lines
  6-8, which Streamlit writes on the page, and the title, headings and instructions of
  lines 117-135 and 151-152) are the same in every run and are not listed among a
  run's output. An exception is an instance of Python's
  \<^verbatim>\<open>Exception\<close>, the class the two handlers of the script catch; a
  \<^verbatim>\<open>KeyboardInterrupt\<close> or \<^verbatim>\<open>SystemExit\<close> ends the run and is not a value of
  the model. A character of a Python string is a character here, which is exact for
  the text a \<open>char\<close> can hold.
\<close>

subsection \<open>Configuration (lines 26-29)\<close>

definition PDF_PATH :: string where
  "PDF_PATH = ''document.pdf''"

definition CHUNK_SIZE :: nat where
  "CHUNK_SIZE = 256"

definition CHUNK_OVERLAP :: nat where
  "CHUNK_OVERLAP = 32"

definition EMBEDDING_MODEL :: string where
  "EMBEDDING_MODEL = ''nomic-embed-text''"

subsection \<open>Values\<close>

text \<open>
  An exception object that \<^verbatim>\<open>except Exception as e\<close> can catch, reduced to what the
  script reads of it: \<^verbatim>\<open>str(e)\<close>.
\<close>

datatype exception = Exception string

fun str :: "exception \<Rightarrow> string" where
  "str (Exception msg) = msg"

text \<open>A LangChain document: a page of the PDF, or a chunk of one.\<close>

record document =
  page_content :: string
  metadata :: "(string \<times> string) list"

text \<open>
  The fixed messages of the script start with an emoji. The theory is ASCII, so each
  emoji is written as the bytes of its UTF-8 encoding.
\<close>

definition cross_mark :: string where
  "cross_mark = [CHR 0xE2, CHR 0x9D, CHR 0x8C]"

definition check_mark :: string where
  "check_mark = [CHR 0xE2, CHR 0x9C, CHR 0x85]"

definition warning_sign :: string where
  "warning_sign = [CHR 0xE2, CHR 0x9A, CHR 0xA0, CHR 0xEF, CHR 0xB8, CHR 0x8F]"

text \<open>Decimal notation, for the numbers the f-strings print.\<close>

fun str_nat :: "nat \<Rightarrow> string" where
  "str_nat n =
     (if n < 10 then [''0123456789'' ! n]
      else str_nat (n div 10) @ [''0123456789'' ! (n mod 10)])"

text \<open>What a run of the script puts on the page, one constructor for each \<^verbatim>\<open>st.*\<close> call.\<close>

datatype ui =
    Spinner string
  | Info string
  | Success string
  | Error string
  | Warning string
  | Markdown string
  | Write string
  | Text string
  | Expander string

subsection \<open>The collaborators\<close>

text \<open>
  A call to a collaborator reads and may change the world outside the script (the file
  system, the Ollama server), so each one takes a world \<open>'w\<close> and returns the world after
  it next to its result; a call that can raise returns \<open>Inl\<close> of the exception. The
  splitter works on its argument alone. \<open>'vs\<close> is the type of a FAISS index.

  \<^item> \<open>path_exists p\<close>: \<^verbatim>\<open>Path(p).exists()\<close>;
  \<^item> \<open>loader_load p\<close>: \<^verbatim>\<open>PyPDFLoader(p).load()\<close>;
  \<^item> \<open>split_documents chunk_size chunk_overlap docs\<close>: \<^verbatim>\<open>split_documents(docs)\<close> of a
    \<^verbatim>\<open>RecursiveCharacterTextSplitter\<close> built with these two numbers and
    \<^verbatim>\<open>length_function=len\<close>;
  \<^item> \<open>from_documents chunks model\<close>:
    \<^verbatim>\<open>FAISS.from_documents(chunks, OllamaEmbeddings(model=model))\<close>;
  \<^item> \<open>similarity_search vs q k\<close>: what a retriever
    \<^verbatim>\<open>vs.as_retriever(search_kwargs={"k": k})\<close> does on \<^verbatim>\<open>invoke(q)\<close>;
  \<^item> \<open>llm_invoke model temperature messages\<close>: the prompt's messages sent to
    \<^verbatim>\<open>OllamaLLM(model=model, temperature=temperature)\<close>.
\<close>

record ('w, 'vs) env =
  path_exists :: "string \<Rightarrow> 'w \<Rightarrow> bool \<times> 'w"
  loader_load :: "string \<Rightarrow> 'w \<Rightarrow> (exception + document list) \<times> 'w"
  split_documents :: "nat \<Rightarrow> nat \<Rightarrow> document list \<Rightarrow> exception + document list"
  from_documents :: "document list \<Rightarrow> string \<Rightarrow> 'w \<Rightarrow> (exception + 'vs) \<times> 'w"
  similarity_search :: "'vs \<Rightarrow> string \<Rightarrow> nat \<Rightarrow> 'w \<Rightarrow> (exception + document list) \<times> 'w"
  llm_invoke ::
    "string \<Rightarrow> int \<Rightarrow> (string \<times> string) list \<Rightarrow> 'w \<Rightarrow> (exception + string) \<times> 'w"

text \<open>
  The model keeps a log of the calls the script makes, in order, next to the world:
  that a run does or does not construct an index, and with which arguments it searches
  and generates, is read from the log.
\<close>

datatype 'vs call =
    PathExists string
  | LoaderLoad string
  | SplitDocuments nat nat "document list"
  | FromDocuments "document list" string
  | SimilaritySearch 'vs string nat
  | LlmInvoke string int "(string \<times> string) list"

type_synonym ('w, 'vs) ext = "'w \<times> 'vs call list"

definition call_path_exists ::
  "('w, 'vs) env \<Rightarrow> string \<Rightarrow> ('w, 'vs) ext \<Rightarrow> bool \<times> ('w, 'vs) ext" where
  "call_path_exists env p x =
     (case path_exists env p (fst x) of
        (b, w) \<Rightarrow> (b, (w, snd x @ [PathExists p])))"

definition call_loader_load ::
  "('w, 'vs) env \<Rightarrow> string \<Rightarrow> ('w, 'vs) ext \<Rightarrow> (exception + document list) \<times> ('w, 'vs) ext" where
  "call_loader_load env p x =
     (case loader_load env p (fst x) of
        (r, w) \<Rightarrow> (r, (w, snd x @ [LoaderLoad p])))"

definition call_split_documents ::
  "('w, 'vs) env \<Rightarrow> nat \<Rightarrow> nat \<Rightarrow> document list \<Rightarrow> ('w, 'vs) ext
     \<Rightarrow> (exception + document list) \<times> ('w, 'vs) ext" where
  "call_split_documents env chunk_size chunk_overlap docs x =
     (split_documents env chunk_size chunk_overlap docs,
      (fst x, snd x @ [SplitDocuments chunk_size chunk_overlap docs]))"

definition call_from_documents ::
  "('w, 'vs) env \<Rightarrow> document list \<Rightarrow> string \<Rightarrow> ('w, 'vs) ext \<Rightarrow> (exception + 'vs) \<times> ('w, 'vs) ext" where
  "call_from_documents env chunks model x =
     (case from_documents env chunks model (fst x) of
        (r, w) \<Rightarrow> (r, (w, snd x @ [FromDocuments chunks model])))"

definition call_similarity_search ::
  "('w, 'vs) env \<Rightarrow> 'vs \<Rightarrow> string \<Rightarrow> nat \<Rightarrow> ('w, 'vs) ext
     \<Rightarrow> (exception + document list) \<times> ('w, 'vs) ext" where
  "call_similarity_search env vs q k x =
     (case similarity_search env vs q k (fst x) of
        (r, w) \<Rightarrow> (r, (w, snd x @ [SimilaritySearch vs q k])))"

definition call_llm_invoke ::
  "('w, 'vs) env \<Rightarrow> string \<Rightarrow> int \<Rightarrow> (string \<times> string) list \<Rightarrow> ('w, 'vs) ext
     \<Rightarrow> (exception + string) \<times> ('w, 'vs) ext" where
  "call_llm_invoke env model temp msgs x =
     (case llm_invoke env model temp msgs (fst x) of
        (r, w) \<Rightarrow> (r, (w, snd x @ [LlmInvoke model temp msgs])))"

subsection \<open>Ingest (lines 37-74)\<close>

text \<open>
  \<^verbatim>\<open>load_and_split_pdf\<close> returns the chunks and the number of pages; an exception of the
  loader or of the splitter leaves the function at once.
\<close>

definition load_and_split_pdf ::
  "('w, 'vs) env \<Rightarrow> string \<Rightarrow> ('w, 'vs) ext
     \<Rightarrow> (exception + document list \<times> nat) \<times> ('w, 'vs) ext" where
  "load_and_split_pdf env pdf_path x =
     (case call_loader_load env pdf_path x of
        (Inl e, x1) \<Rightarrow> (Inl e, x1)
      | (Inr documents, x1) \<Rightarrow>
          (case call_split_documents env CHUNK_SIZE CHUNK_OVERLAP documents x1 of
             (Inl e, x2) \<Rightarrow> (Inl e, x2)
           | (Inr chunks, x2) \<Rightarrow> (Inr (chunks, length documents), x2)))"

definition create_vectorstore ::
  "('w, 'vs) env \<Rightarrow> document list \<Rightarrow> string \<Rightarrow> ('w, 'vs) ext \<Rightarrow> (exception + 'vs) \<times> ('w, 'vs) ext" where
  "create_vectorstore env chunks embedding_model x =
     call_from_documents env chunks embedding_model x"

text \<open>
  \<^verbatim>\<open>ingest_pdf\<close> returns the triple (success, message, vectorstore), the vectorstore
  being an option: \<open>None\<close> is Python's \<^verbatim>\<open>None\<close>. The model returns what was put on the
  page and the world and log after the call next to it. The \<^verbatim>\<open>try\<close> block covers
  everything after the existence check, and \<^verbatim>\<open>except Exception\<close> turns the exception
  into the second failure triple.
\<close>

definition not_found_message :: string where
  "not_found_message =
     cross_mark @ '' '' @ PDF_PATH @ '' not found. Please upload or download a PDF first.''"

definition error_message :: "exception \<Rightarrow> string" where
  "error_message e = cross_mark @ '' Error: '' @ str e"

definition success_message :: string where
  "success_message = check_mark @ '' PDF ingested successfully!''"

definition ingest_pdf ::
  "('w, 'vs) env \<Rightarrow> ('w, 'vs) ext \<Rightarrow> (bool \<times> string \<times> 'vs option) \<times> ui list \<times> ('w, 'vs) ext" where
  "ingest_pdf env x =
     (case call_path_exists env PDF_PATH x of
        (exists, x1) \<Rightarrow>
          if \<not> exists then ((False, not_found_message, None), [], x1)
          else
            let out1 = [Spinner (''Loading PDF from '' @ PDF_PATH @ ''...'')] in
            (case load_and_split_pdf env PDF_PATH x1 of
               (Inl e, x2) \<Rightarrow> ((False, error_message e, None), out1, x2)
             | (Inr (chunks, num_pages), x2) \<Rightarrow>
                 let out2 = out1 @
                       [Info (''Loaded '' @ str_nat num_pages @ '' pages, split into '' @
                              str_nat (length chunks) @ '' chunks''),
                        Spinner (''Creating embeddings using '' @ EMBEDDING_MODEL @ ''...'')] in
                 (case create_vectorstore env chunks EMBEDDING_MODEL x2 of
                    (Inl e, x3) \<Rightarrow> ((False, error_message e, None), out2, x3)
                  | (Inr vectorstore, x3) \<Rightarrow>
                      ((True, success_message, Some vectorstore), out2, x3))))"

subsection \<open>The query pipeline (lines 76-114)\<close>

text \<open>
  \<^verbatim>\<open>initialize_qa_chain\<close> only builds objects: a language-model client with the model
  name and temperature 0, the prompt, a retriever over the index with
  \<^verbatim>\<open>search_kwargs={"k": 3}\<close>, and the chain that pipes them. The objects are records
  of what they were built from; running them is \<open>retriever_invoke\<close> and \<open>chain_invoke\<close>.
  None of the constructors contacts a service, and the script does not guard
  the call with a \<^verbatim>\<open>try\<close>, so the function has no failure branch.
\<close>

record llm =
  model :: string
  temperature :: int

record 'vs retriever =
  store :: 'vs
  search_k :: nat

record 'vs rag_chain =
  chain_retriever :: "'vs retriever"
  chain_llm :: llm

record 'vs qa_bundle =
  chain :: "'vs rag_chain"
  retriever :: "'vs retriever"

definition system_prompt :: string where
  "system_prompt =
     ''Use the following pieces of context to answer the question at the end. '' @
     ''If you don't know the answer, just say that you don't know, don't try to make up an answer. '' @
     ''The user will probably ask questions about a specific workstation product from HP.'' @
     ''Context will be provided from the user's manual. If they ask about anything else, '' @
     ''politely inform them that you can only answer questions related to this specific HP workstation.''"

text \<open>The prompt template, filled with a context and a question.\<close>

definition prompt_messages :: "string \<Rightarrow> string \<Rightarrow> (string \<times> string) list" where
  "prompt_messages context question =
     [(''system'', system_prompt),
      (''human'',
       ''Context:'' @ [CHR 0x0A] @ context @ [CHR 0x0A, CHR 0x0A] @
       ''Question: '' @ question @ [CHR 0x0A, CHR 0x0A] @
       ''Answer:'')]"

fun join :: "string \<Rightarrow> string list \<Rightarrow> string" where
  "join sep [] = []"
| "join sep [s] = s"
| "join sep (s # t # ts) = s @ sep @ join sep (t # ts)"

definition format_docs :: "document list \<Rightarrow> string" where
  "format_docs docs = join [CHR 0x0A, CHR 0x0A] (map page_content docs)"

definition initialize_qa_chain :: "'vs \<Rightarrow> string \<Rightarrow> 'vs qa_bundle" where
  "initialize_qa_chain vectorstore model_name =
     (let llm = \<lparr>model = model_name, temperature = 0\<rparr>;
          retriever = \<lparr>store = vectorstore, search_k = 3\<rparr>;
          rag_chain = \<lparr>chain_retriever = retriever, chain_llm = llm\<rparr>
      in \<lparr>chain = rag_chain, retriever = retriever\<rparr>)"

definition retriever_invoke ::
  "('w, 'vs) env \<Rightarrow> 'vs retriever \<Rightarrow> string \<Rightarrow> ('w, 'vs) ext
     \<Rightarrow> (exception + document list) \<times> ('w, 'vs) ext" where
  "retriever_invoke env r question x =
     call_similarity_search env (store r) question (search_k r) x"

text \<open>
  The chain: the retriever's documents, formatted, are the context; the question is
  passed through; the filled prompt goes to the model; the output parser returns the
  model's text as it is.
\<close>

definition chain_invoke ::
  "('w, 'vs) env \<Rightarrow> 'vs rag_chain \<Rightarrow> string \<Rightarrow> ('w, 'vs) ext
     \<Rightarrow> (exception + string) \<times> ('w, 'vs) ext" where
  "chain_invoke env c question x =
     (case retriever_invoke env (chain_retriever c) question x of
        (Inl e, x1) \<Rightarrow> (Inl e, x1)
      | (Inr docs, x1) \<Rightarrow>
          call_llm_invoke env (model (chain_llm c)) (temperature (chain_llm c))
            (prompt_messages (format_docs docs) question) x1)"

subsection \<open>Session state and the page (lines 31-35, 116-186)\<close>

text \<open>
  \<^verbatim>\<open>st.session_state\<close> holds two keys. A new session has neither (\<open>None\<close> below);
  lines 32-35 then store \<^verbatim>\<open>None\<close> under both, and no line of the script deletes a key.
\<close>

record 'vs session_state =
  vectorstore :: "'vs option"
  qa_chain :: "'vs qa_bundle option"

definition init_session_state :: "'vs session_state option \<Rightarrow> 'vs session_state" where
  "init_session_state st =
     (case st of
        None \<Rightarrow> \<lparr>vectorstore = None, qa_chain = None\<rparr>
      | Some ss \<Rightarrow> ss)"

text \<open>
  What the widgets return in one run of the script: the text of the model-name field,
  whether the run was started by the Process PDF button, the text of the question
  field and whether the form was submitted. (The two form widgets exist only on a
  page that shows the form.)
\<close>

record ui_input =
  inp_model_name :: string
  inp_process_pdf :: bool
  inp_question :: string
  inp_submit_button :: bool

text \<open>
  Lines 137-148, the body of \<^verbatim>\<open>if st.button(...)\<close>. A FAISS index defines neither
  \<^verbatim>\<open>__bool__\<close> nor \<^verbatim>\<open>__len__\<close>, so \<^verbatim>\<open>if st.session_state.vectorstore:\<close> is true
  for every index and false for \<^verbatim>\<open>None\<close>.
\<close>

definition process_pdf_button ::
  "('w, 'vs) env \<Rightarrow> string \<Rightarrow> 'vs session_state \<Rightarrow> ('w, 'vs) ext
     \<Rightarrow> 'vs session_state \<times> ui list \<times> ('w, 'vs) ext" where
  "process_pdf_button env model_name ss x =
     (case ingest_pdf env x of
        ((success, message, vectorstore'), out, x1) \<Rightarrow>
          if success then
            let ss1 = ss\<lparr>vectorstore := vectorstore'\<rparr> in
            (case vectorstore ss1 of
               Some vs \<Rightarrow>
                 (ss1\<lparr>qa_chain := Some (initialize_qa_chain vs model_name)\<rparr>,
                  out @ [Success message], x1)
             | None \<Rightarrow> (ss1, out @ [Success message], x1))
          else (ss, out @ [Error message], x1))"

text \<open>
  The sidebar (lines 120-154) without its fixed headings and instructions: the button's
  handler when the button was clicked, then the file status.
\<close>

definition sidebar ::
  "('w, 'vs) env \<Rightarrow> ui_input \<Rightarrow> 'vs session_state \<Rightarrow> ('w, 'vs) ext
     \<Rightarrow> 'vs session_state \<times> ui list \<times> ('w, 'vs) ext" where
  "sidebar env inp ss x =
     (case (if inp_process_pdf inp then process_pdf_button env (inp_model_name inp) ss x
            else (ss, [], x)) of
        (ss1, out1, x1) \<Rightarrow>
          (case call_path_exists env PDF_PATH x1 of
             (pdf_exists, x2) \<Rightarrow>
               (ss1,
                out1 @ [Text ((if pdf_exists then check_mark else cross_mark) @ '' '' @ PDF_PATH)],
                x2)))"

text \<open>Lines 179-182: one entry for each source document, numbered from \<open>i\<close>.\<close>

fun source_entries :: "nat \<Rightarrow> document list \<Rightarrow> ui list" where
  "source_entries i [] = []"
| "source_entries i (doc # docs) =
     [Markdown (''**Source '' @ str_nat i @ '':**''),
      Text (take 500 (page_content doc) @ ''...''),
      Markdown ''---''] @ source_entries (Suc i) docs"

definition query_failed :: "exception \<Rightarrow> ui list" where
  "query_failed e =
     [Error (''Error: '' @ str e), Info ''Make sure Ollama is running: `ollama serve`'']"

definition none_not_subscriptable :: exception where
  "none_not_subscriptable =
     Exception ([CHR 0x27] @ ''NoneType'' @ [CHR 0x27] @ '' object is not subscriptable'')"

text \<open>
  Lines 167-186, the body of \<^verbatim>\<open>if submit_button and question:\<close>. The \<^verbatim>\<open>try\<close> covers
  the chain and the second call of the retriever; what was put on the page before an
  exception stays there. Subscripting \<^verbatim>\<open>None\<close> raises a \<^verbatim>\<open>TypeError\<close> inside the
  \<^verbatim>\<open>try\<close>.
\<close>

definition query_handler ::
  "('w, 'vs) env \<Rightarrow> string \<Rightarrow> 'vs session_state \<Rightarrow> ('w, 'vs) ext
     \<Rightarrow> 'vs session_state \<times> ui list \<times> ('w, 'vs) ext" where
  "query_handler env question ss x =
     (let out0 = [Spinner ''Processing...''] in
      case qa_chain ss of
        None \<Rightarrow> (ss, out0 @ query_failed none_not_subscriptable, x)
      | Some qa_bundle \<Rightarrow>
          (case chain_invoke env (chain qa_bundle) question x of
             (Inl e, x1) \<Rightarrow> (ss, out0 @ query_failed e, x1)
           | (Inr answer, x1) \<Rightarrow>
               let out1 = out0 @
                     [Markdown ''### Answer'', Write answer, Expander ''View Source Context''] in
               (case retriever_invoke env (retriever qa_bundle) question x1 of
                  (Inl e, x2) \<Rightarrow> (ss, out1 @ query_failed e, x2)
                | (Inr source_docs, x2) \<Rightarrow> (ss, out1 @ source_entries 1 source_docs, x2))))"

text \<open>Lines 157-186.\<close>

definition main_interface ::
  "('w, 'vs) env \<Rightarrow> ui_input \<Rightarrow> 'vs session_state \<Rightarrow> ('w, 'vs) ext
     \<Rightarrow> 'vs session_state \<times> ui list \<times> ('w, 'vs) ext" where
  "main_interface env inp ss x =
     (if vectorstore ss = None \<or> qa_chain ss = None then
        (ss,
         [Warning (warning_sign @
            '' Please process the PDF and load the vector store using the sidebar.'')],
         x)
      else if inp_submit_button inp \<and> inp_question inp \<noteq> [] then
        query_handler env (inp_question inp) ss x
      else (ss, [], x))"

text \<open>One run of the script, from the session state the last run left.\<close>

definition script_run ::
  "('w, 'vs) env \<Rightarrow> ui_input \<Rightarrow> 'vs session_state option \<Rightarrow> ('w, 'vs) ext
     \<Rightarrow> 'vs session_state \<times> ui list \<times> ('w, 'vs) ext" where
  "script_run env inp st x =
     (case sidebar env inp (init_session_state st) x of
        (ss1, out1, x1) \<Rightarrow>
          (case main_interface env inp ss1 x1 of
             (ss2, out2, x2) \<Rightarrow> (ss2, out1 @ out2, x2)))"

text \<open>
  A session: the runs of the script one after the other, each with the widgets' values
  and the world it starts in. The world between two runs is not the script's to decide,
  so every run is given its own.
\<close>

fun session_run ::
  "('w, 'vs) env \<Rightarrow> (ui_input \<times> 'w) list \<Rightarrow> 'vs session_state option
     \<Rightarrow> 'vs session_state option" where
  "session_run env [] st = st"
| "session_run env ((inp, w) # rest) st =
     session_run env rest (Some (fst (script_run env inp st (w, []))))"

subsection \<open>Observations\<close>

text \<open>What a log and a page hold: the indexes constructed, the searches, the calls of the
  language model, the \<^verbatim>\<open>st.text\<close> elements.\<close>

fun constructions :: "'vs call list \<Rightarrow> (document list \<times> string) list" where
  "constructions [] = []"
| "constructions (FromDocuments chunks m # cs) = (chunks, m) # constructions cs"
| "constructions (c # cs) = constructions cs"

fun searches :: "'vs call list \<Rightarrow> ('vs \<times> string \<times> nat) list" where
  "searches [] = []"
| "searches (SimilaritySearch vs q k # cs) = (vs, q, k) # searches cs"
| "searches (c # cs) = searches cs"

fun generations :: "'vs call list \<Rightarrow> (string \<times> int \<times> (string \<times> string) list) list" where
  "generations [] = []"
| "generations (LlmInvoke m t msgs # cs) = (m, t, msgs) # generations cs"
| "generations (c # cs) = generations cs"

fun texts :: "ui list \<Rightarrow> string list" where
  "texts [] = []"
| "texts (Text s # us) = s # texts us"
| "texts (u # us) = texts us"

text \<open>The \<^verbatim>\<open>st.error\<close> elements of a page.\<close>

fun errors :: "ui list \<Rightarrow> string list" where
  "errors [] = []"
| "errors (Error s # us) = s # errors us"
| "errors (u # us) = errors us"

text \<open>
  Modelled from the spec: the search of the vector index, which is code of the FAISS
  library and of its embedder, outside the repository. The spec (section 4.2) has it
  return "the k nearest chunks ... by embedding-distance to the question's own
  embedding": of the chunks of the index, ordered by their distance \<open>d\<close> to the
  question, the first \<open>k\<close> (all of them when there are fewer; chunks at the same
  distance stay in the order of the index). It is used only to say what the index is
  expected to return; the script's calls go to \<open>similarity_search\<close> of \<open>env\<close>.
\<close>

definition nearest :: "('a \<Rightarrow> 'd::linorder) \<Rightarrow> 'a list \<Rightarrow> nat \<Rightarrow> 'a list" where
  "nearest d chunks k = take k (sort_key d chunks)"

text \<open>
  The pairing of pipeline and index: a stored pipeline is the one
  \<open>initialize_qa_chain\<close> builds from the stored index (with the pipeline's own model name).
\<close>

definition paired :: "'vs session_state \<Rightarrow> bool" where
  "paired ss =
     (case qa_chain ss of
        None \<Rightarrow> True
      | Some b \<Rightarrow>
          (case vectorstore ss of
             None \<Rightarrow> False
           | Some vs \<Rightarrow> b = initialize_qa_chain vs (model (chain_llm (chain b)))))"

text \<open>The model name the stored pipeline generates with.\<close>

definition stored_model :: "'vs session_state \<Rightarrow> string option" where
  "stored_model ss = map_option (\<lambda>b. model (chain_llm (chain b))) (qa_chain ss)"

text \<open>
  The text of the model-name field in the last run of a session in which Process PDF
  was clicked and the ingest succeeded; \<open>m\<close> when there was none.
\<close>

fun last_ingest_model ::
  "('w, 'vs) env \<Rightarrow> (ui_input \<times> 'w) list \<Rightarrow> string option \<Rightarrow> string option" where
  "last_ingest_model env [] m = m"
| "last_ingest_model env ((inp, w) # rest) m =
     last_ingest_model env rest
       (if inp_process_pdf inp \<and> fst (fst (ingest_pdf env (w, [])))
        then Some (inp_model_name inp) else m)"

subsection \<open>Sample worlds\<close>

text \<open>
  Concrete collaborators, to run the model on: the world is a clock that every call
  advances, an index is the list of its chunks and a search returns the first \<open>k\<close>.
  In \<open>missing_env\<close> the PDF is absent, in \<open>bad_pdf_env\<close> the loader raises, in
  \<open>no_ollama_env\<close> the embedder does.
\<close>

definition sample_page :: document where
  "sample_page =
     \<lparr>page_content = ''The HP workstation has two fans.'', metadata = [(''page'', ''0'')]\<rparr>"

definition sample_env :: "(nat, document list) env" where
  "sample_env =
     \<lparr>path_exists = (\<lambda>p w. (p = ''document.pdf'', Suc w)),
      loader_load = (\<lambda>p w. (Inr [sample_page], Suc w)),
      split_documents = (\<lambda>cs co docs. Inr docs),
      from_documents = (\<lambda>chunks m w. (Inr chunks, Suc w)),
      similarity_search = (\<lambda>vs q k w. (Inr (take k vs), Suc w)),
      llm_invoke = (\<lambda>m t msgs w. (Inr ''Two fans.'', Suc w))\<rparr>"

definition missing_env :: "(nat, document list) env" where
  "missing_env = sample_env\<lparr>path_exists := (\<lambda>p w. (False, Suc w))\<rparr>"

definition bad_pdf_env :: "(nat, document list) env" where
  "bad_pdf_env =
     sample_env\<lparr>loader_load := (\<lambda>p w. (Inl (Exception ''EOF marker not found''), Suc w))\<rparr>"

definition no_ollama_env :: "(nat, document list) env" where
  "no_ollama_env =
     sample_env\<lparr>from_documents := (\<lambda>chunks m w. (Inl (Exception ''Connection refused''), Suc w))\<rparr>"

definition indexed_session :: "document list session_state" where
  "indexed_session =
     \<lparr>vectorstore = Some [sample_page],
      qa_chain = Some (initialize_qa_chain [sample_page] ''llama3.2'')\<rparr>"

definition llm_down_env :: "(nat, document list) env" where
  "llm_down_env =
     sample_env\<lparr>llm_invoke := (\<lambda>m t msgs w. (Inl (Exception ''Connection refused''), Suc w))\<rparr>"

text \<open>Two runs of the page: a click on Process PDF, and a question asked after the
  model-name field was changed.\<close>

definition click_process :: ui_input where
  "click_process =
     \<lparr>inp_model_name = ''llama3.2'', inp_process_pdf = True,
      inp_question = [], inp_submit_button = False\<rparr>"

text \<open>
  An index of five chunks whose search ranks by a distance: the embedding of a text is
  its length, and the distance is the difference of the lengths. The three chunks
  nearest to the question of \<open>fans_question\<close>, the messages the model is sent for them
  and the page of the query are written out.
\<close>

definition five_chunks :: "document list" where
  "five_chunks =
     [\<lparr>page_content = ''Two fans.'', metadata = []\<rparr>,
      \<lparr>page_content = ''One power supply unit.'', metadata = []\<rparr>,
      \<lparr>page_content = ''Fans: 2'', metadata = []\<rparr>,
      \<lparr>page_content = ''The HP workstation manual, chapter one.'', metadata = []\<rparr>,
      \<lparr>page_content = ''A fan cools it.'', metadata = []\<rparr>]"

definition sample_embedding :: "string \<Rightarrow> nat" where
  "sample_embedding q = length q"

definition sample_distance :: "nat \<Rightarrow> document \<Rightarrow> nat" where
  "sample_distance v d = nat \<bar>int v - int (length (page_content d))\<bar>"

definition ranked_env :: "(nat, document list) env" where
  "ranked_env =
     sample_env
       \<lparr>split_documents := (\<lambda>cs co docs. Inr five_chunks),
        similarity_search :=
          (\<lambda>vs q k w. (Inr (nearest (sample_distance (sample_embedding q)) vs k), Suc w))\<rparr>"

definition ranked_session :: "document list session_state" where
  "ranked_session =
     \<lparr>vectorstore = Some five_chunks,
      qa_chain = Some (initialize_qa_chain five_chunks ''llama3.2'')\<rparr>"

definition fans_question :: string where
  "fans_question = ''How many fans?''"

definition fans_sources :: "document list" where
  "fans_sources =
     [\<lparr>page_content = ''A fan cools it.'', metadata = []\<rparr>,
      \<lparr>page_content = ''Two fans.'', metadata = []\<rparr>,
      \<lparr>page_content = ''Fans: 2'', metadata = []\<rparr>]"

definition fans_messages :: "(string \<times> string) list" where
  "fans_messages =
     [(''system'', system_prompt),
      (''human'',
       ''Context:'' @ [CHR 0x0A] @
       ''A fan cools it.'' @ [CHR 0x0A, CHR 0x0A] @
       ''Two fans.'' @ [CHR 0x0A, CHR 0x0A] @
       ''Fans: 2'' @ [CHR 0x0A, CHR 0x0A] @
       ''Question: How many fans?'' @ [CHR 0x0A, CHR 0x0A] @ ''Answer:'')]"

definition fans_page :: "ui list" where
  "fans_page =
     [Spinner ''Processing...'', Markdown ''### Answer'', Write ''Two fans.'',
      Expander ''View Source Context'',
      Markdown ''**Source 1:**'', Text ''A fan cools it....'', Markdown ''---'',
      Markdown ''**Source 2:**'', Text ''Two fans....'', Markdown ''---'',
      Markdown ''**Source 3:**'', Text ''Fans: 2...'', Markdown ''---'']"

definition ask_fans :: ui_input where
  "ask_fans =
     \<lparr>inp_model_name = ''mistral'', inp_process_pdf = False,
      inp_question = ''How many fans?'', inp_submit_button = True\<rparr>"

section \<open>Properties\<close>

subsection \<open>Auxiliary lemmas\<close>

lemma constructions_append: "constructions (a @ b) = constructions a @ constructions b"
  by (induction a rule: constructions.induct) simp_all

lemma ingest_pdf_flag:
  "fst (fst (ingest_pdf env x)) = (snd (snd (fst (ingest_pdf env x))) \<noteq> None)"
  by (simp add: ingest_pdf_def Let_def split: prod.splits sum.splits)

lemma process_pdf_button_success:
  "fst (fst (ingest_pdf env x)) \<Longrightarrow>
   fst (process_pdf_button env m ss x) =
     ss\<lparr>vectorstore := snd (snd (fst (ingest_pdf env x))),
        qa_chain := map_option (\<lambda>vs. initialize_qa_chain vs m) (snd (snd (fst (ingest_pdf env x))))\<rparr>"
  using ingest_pdf_flag [of env x]
  by (cases "ingest_pdf env x") (auto simp: process_pdf_button_def Let_def split: option.splits)

lemma process_pdf_button_failure:
  "\<not> fst (fst (ingest_pdf env x)) \<Longrightarrow> fst (process_pdf_button env m ss x) = ss"
  by (cases "ingest_pdf env x") (auto simp: process_pdf_button_def)

lemma process_pdf_button_paired:
  "paired ss \<Longrightarrow> paired (fst (process_pdf_button env m ss x))"
proof (cases "fst (fst (ingest_pdf env x))")
  case True
  assume "paired ss"
  from True ingest_pdf_flag [of env x] obtain vs where
    "snd (snd (fst (ingest_pdf env x))) = Some vs" by auto
  with True show ?thesis
    by (simp add: process_pdf_button_success paired_def initialize_qa_chain_def)
next
  case False
  assume "paired ss"
  with False show ?thesis by (simp add: process_pdf_button_failure)
qed

lemma query_handler_state: "fst (query_handler env q ss x) = ss"
  by (simp add: query_handler_def Let_def split: option.splits prod.splits sum.splits)

lemma main_interface_state: "fst (main_interface env inp ss x) = ss"
  by (simp add: main_interface_def query_handler_state)

lemma sidebar_state:
  "fst (sidebar env inp ss x) =
     (if inp_process_pdf inp then fst (process_pdf_button env (inp_model_name inp) ss x) else ss)"
  by (simp add: sidebar_def split: prod.splits)

lemma script_run_state:
  "fst (script_run env inp st x) =
     (if inp_process_pdf inp
      then fst (process_pdf_button env (inp_model_name inp) (init_session_state st) x)
      else init_session_state st)"
proof -
  obtain ss1 out1 x1 where s: "sidebar env inp (init_session_state st) x = (ss1, out1, x1)"
    by (cases "sidebar env inp (init_session_state st) x") auto
  obtain ss2 out2 x2 where m: "main_interface env inp ss1 x1 = (ss2, out2, x2)"
    by (cases "main_interface env inp ss1 x1") auto
  from m main_interface_state [of env inp ss1 x1] have "ss2 = ss1" by simp
  moreover from s sidebar_state [of env inp "init_session_state st" x]
  have "ss1 = (if inp_process_pdf inp
      then fst (process_pdf_button env (inp_model_name inp) (init_session_state st) x)
      else init_session_state st)" by simp
  ultimately show ?thesis using s m by (simp add: script_run_def)
qed

lemma script_run_paired:
  "paired (init_session_state st) \<Longrightarrow> paired (fst (script_run env inp st x))"
  by (simp add: script_run_state process_pdf_button_paired)

lemma paired_init_None: "paired (init_session_state None)"
  by (simp add: paired_def init_session_state_def)

lemma session_run_paired:
  "paired (init_session_state st) \<Longrightarrow> paired (init_session_state (session_run env hist st))"
proof (induction hist arbitrary: st)
  case Nil
  then show ?case by simp
next
  case (Cons a hist)
  obtain inp w where a: "a = (inp, w)" by (cases a)
  have "paired (init_session_state (Some (fst (script_run env inp st (w, [])))))"
    using Cons.prems by (simp add: init_session_state_def script_run_paired)
  then show ?case using Cons.IH a by simp
qed

lemma searches_append: "searches (a @ b) = searches a @ searches b"
  by (induction a rule: searches.induct) simp_all

lemma generations_append: "generations (a @ b) = generations a @ generations b"
  by (induction a rule: generations.induct) simp_all

lemma texts_append: "texts (a @ b) = texts a @ texts b"
  by (induction a rule: texts.induct) simp_all

lemma texts_source_entries: "length (texts (source_entries i docs)) = length docs"
  by (induction docs arbitrary: i) simp_all

lemma texts_query_failed: "texts (query_failed e) = []"
  by (simp add: query_failed_def)

lemma query_handler_indexed:
  "query_handler env q \<lparr>vectorstore = v, qa_chain = Some (initialize_qa_chain vs m)\<rparr> (w, log) =
     (let ss = \<lparr>vectorstore = v, qa_chain = Some (initialize_qa_chain vs m)\<rparr>;
          msgs = (\<lambda>docs. prompt_messages (format_docs docs) q) in
      case similarity_search env vs q 3 w of
        (Inl e, w1) \<Rightarrow>
          (ss, [Spinner ''Processing...''] @ query_failed e, (w1, log @ [SimilaritySearch vs q 3]))
      | (Inr docs, w1) \<Rightarrow>
          (case llm_invoke env m 0 (msgs docs) w1 of
             (Inl e, w2) \<Rightarrow>
               (ss, [Spinner ''Processing...''] @ query_failed e,
                (w2, log @ [SimilaritySearch vs q 3, LlmInvoke m 0 (msgs docs)]))
           | (Inr answer, w2) \<Rightarrow>
               (case similarity_search env vs q 3 w2 of
                  (Inl e, w3) \<Rightarrow>
                    (ss, [Spinner ''Processing...'', Markdown ''### Answer'', Write answer,
                          Expander ''View Source Context''] @ query_failed e,
                     (w3, log @ [SimilaritySearch vs q 3, LlmInvoke m 0 (msgs docs),
                                 SimilaritySearch vs q 3]))
                | (Inr source_docs, w3) \<Rightarrow>
                    (ss, [Spinner ''Processing...'', Markdown ''### Answer'', Write answer,
                          Expander ''View Source Context''] @ source_entries 1 source_docs,
                     (w3, log @ [SimilaritySearch vs q 3, LlmInvoke m 0 (msgs docs),
                                 SimilaritySearch vs q 3])))))"
  by (simp add: query_handler_def chain_invoke_def retriever_invoke_def call_similarity_search_def
      call_llm_invoke_def initialize_qa_chain_def Let_def split: prod.splits sum.splits)

lemma paired_indexed:
  assumes "paired ss" and "qa_chain ss = Some b"
  obtains vs m where "ss = \<lparr>vectorstore = Some vs, qa_chain = Some (initialize_qa_chain vs m)\<rparr>"
proof -
  from assms obtain vs where v: "vectorstore ss = Some vs"
    and b: "b = initialize_qa_chain vs (model (chain_llm (chain b)))"
    by (auto simp: paired_def split: option.splits)
  from v b assms(2)
  have "ss = \<lparr>vectorstore = Some vs,
      qa_chain = Some (initialize_qa_chain vs (model (chain_llm (chain b))))\<rparr>"
    by (cases ss) simp
  then show thesis by (rule that)
qed

lemma stored_model_script_run:
  "stored_model (fst (script_run env inp st (w, []))) =
     (if inp_process_pdf inp \<and> fst (fst (ingest_pdf env (w, [])))
      then Some (inp_model_name inp) else stored_model (init_session_state st))"
proof (cases "inp_process_pdf inp \<and> fst (fst (ingest_pdf env (w, [])))")
  case True
  then obtain vs where "snd (snd (fst (ingest_pdf env (w, [])))) = Some vs"
    using ingest_pdf_flag [of env "(w, [])"] by auto
  with True show ?thesis
    by (simp add: script_run_state process_pdf_button_success stored_model_def
        initialize_qa_chain_def Let_def)
next
  case False
  then show ?thesis
    by (auto simp: script_run_state process_pdf_button_failure)
qed

lemma stored_model_session_run:
  "stored_model (init_session_state (session_run env hist st)) =
     last_ingest_model env hist (stored_model (init_session_state st))"
proof (induction hist arbitrary: st)
  case Nil
  then show ?case by simp
next
  case (Cons a hist)
  obtain inp w where a: "a = (inp, w)" by (cases a)
  show ?case
    using Cons.IH [of "Some (fst (script_run env inp st (w, [])))"] a
    by (simp add: stored_model_script_run init_session_state_def)
qed

lemma query_handler_generations:
  "\<forall>(m, t, msgs) \<in> set (generations (snd (snd (snd (query_handler env q ss (w, log)))))).
     (m, t, msgs) \<in> set (generations log) \<or> stored_model ss = Some m"
  by (auto simp: query_handler_def chain_invoke_def retriever_invoke_def
      call_similarity_search_def call_llm_invoke_def stored_model_def generations_append Let_def
      split: option.splits prod.splits sum.splits)

lemma script_run_no_click:
  "\<not> inp_process_pdf inp \<Longrightarrow>
   script_run env inp st x =
     (case call_path_exists env PDF_PATH x of
        (pdf_exists, x2) \<Rightarrow>
          (case main_interface env inp (init_session_state st) x2 of
             (ss2, out2, x3) \<Rightarrow>
               (ss2,
                [Text ((if pdf_exists then check_mark else cross_mark) @ '' '' @ PDF_PATH)] @ out2,
                x3)))"
  by (simp add: script_run_def sidebar_def split: prod.splits)

lemma main_interface_model_name:
  "main_interface env (inp\<lparr>inp_model_name := m'\<rparr>) ss x = main_interface env inp ss x"
  by (simp add: main_interface_def)

lemma main_interface_generations:
  "\<forall>(m, t, msgs) \<in> set (generations (snd (snd (snd (main_interface env inp ss (w, log)))))).
     (m, t, msgs) \<in> set (generations log) \<or> stored_model ss = Some m"
  using query_handler_generations [of env "inp_question inp" ss w log]
  by (auto simp: main_interface_def)

lemma errors_append: "errors (a @ b) = errors a @ errors b"
  by (induction a rule: errors.induct) simp_all

lemma errors_source_entries: "errors (source_entries i docs) = []"
  by (induction docs arbitrary: i) simp_all

lemma texts_source_entries_map:
  "texts (source_entries i docs) = map (\<lambda>d. take 500 (page_content d) @ ''...'') docs"
  by (induction docs arbitrary: i) simp_all

lemma join_concat:
  "xs \<noteq> [] \<Longrightarrow> sep @ join sep xs = concat (map (\<lambda>x. sep @ x) xs)"
  by (induction sep xs rule: join.induct) simp_all

lemma format_docs_concat:
  "format_docs docs = drop 2 (concat (map (\<lambda>d. [CHR 0x0A, CHR 0x0A] @ page_content d) docs))"
proof (cases docs)
  case Nil
  then show ?thesis by (simp add: format_docs_def)
next
  case (Cons d ds)
  then have "[CHR 0x0A, CHR 0x0A] @ format_docs docs =
      concat (map (\<lambda>d. [CHR 0x0A, CHR 0x0A] @ page_content d) docs)"
    using join_concat [of "map page_content docs" "[CHR 0x0A, CHR 0x0A]"]
    by (simp add: format_docs_def comp_def)
  then have "drop 2 ([CHR 0x0A, CHR 0x0A] @ format_docs docs) =
      drop 2 (concat (map (\<lambda>d. [CHR 0x0A, CHR 0x0A] @ page_content d) docs))"
    by simp
  then show ?thesis by simp
qed

lemma prompt_messages_explicit:
  "prompt_messages (format_docs docs) q =
     [(''system'', system_prompt),
      (''human'',
       ''Context:'' @ [CHR 0x0A] @
       drop 2 (concat (map (\<lambda>d. [CHR 0x0A, CHR 0x0A] @ page_content d) docs)) @
       [CHR 0x0A, CHR 0x0A] @ ''Question: '' @ q @ [CHR 0x0A, CHR 0x0A] @ ''Answer:'')]"
  by (simp add: prompt_messages_def format_docs_concat)

lemma length_nearest: "length (nearest d chunks k) \<le> k"
  by (simp add: nearest_def)

lemma query_handler_retrieval:
  assumes found:
      "\<forall>q k w docs w'. similarity_search env vs q k w = (Inr docs, w') \<longrightarrow> docs = found q k"
    and run: "query_handler env q
        \<lparr>vectorstore = Some vs, qa_chain = Some (initialize_qa_chain vs m)\<rparr> (w, []) =
          (ss', out, (w', log))"
  shows "ss' = \<lparr>vectorstore = Some vs, qa_chain = Some (initialize_qa_chain vs m)\<rparr>"
    and "searches log \<noteq> []"
    and "set (searches log) = {(vs, q, 3)}"
    and "\<forall>(m', t, msgs) \<in> set (generations log).
           msgs = prompt_messages (format_docs (found q 3)) q"
    and "texts out = [] \<or> texts out = map (\<lambda>d. take 500 (page_content d) @ ''...'') (found q 3)"
    and "errors out = [] \<Longrightarrow>
           texts out = map (\<lambda>d. take 500 (page_content d) @ ''...'') (found q 3) \<and>
           length (generations log) = 1"
  using run
  by (auto simp: query_handler_indexed Let_def query_failed_def texts_source_entries_map
      errors_source_entries texts_append errors_append
      split: prod.splits sum.splits dest!: found [rule_format])

lemma reachable_indexed:
  assumes "ss = init_session_state (session_run env hist None)"
    and "vectorstore ss = Some vs" and "qa_chain ss \<noteq> None"
  obtains m where "ss = \<lparr>vectorstore = Some vs, qa_chain = Some (initialize_qa_chain vs m)\<rparr>"
proof -
  have p: "paired ss" using assms(1) session_run_paired [OF paired_init_None] by simp
  from assms(3) obtain b where b: "qa_chain ss = Some b" by auto
  from p b obtain vs' m where s: "ss = \<lparr>vectorstore = Some vs', qa_chain = Some (initialize_qa_chain vs' m)\<rparr>"
    by (rule paired_indexed)
  with assms(2) have "vs' = vs" by simp
  with s show thesis by (auto intro: that)
qed

lemmas sample_defs =
  sample_env_def missing_env_def bad_pdf_env_def no_ollama_env_def llm_down_env_def
  sample_page_def indexed_session_def click_process_def ask_fans_def
  PDF_PATH_def CHUNK_SIZE_def CHUNK_OVERLAP_def EMBEDDING_MODEL_def

lemmas run_defs =
  ingest_pdf_def call_path_exists_def load_and_split_pdf_def call_loader_load_def
  call_split_documents_def create_vectorstore_def call_from_documents_def
  process_pdf_button_def sidebar_def main_interface_def query_handler_def chain_invoke_def
  retriever_invoke_def call_similarity_search_def call_llm_invoke_def script_run_def
  init_session_state_def initialize_qa_chain_def Let_def

lemma first_run:
  "script_run sample_env click_process None (0, []) =
     (indexed_session,
      [Spinner ''Loading PDF from document.pdf...'',
       Info ''Loaded 1 pages, split into 1 chunks'',
       Spinner ''Creating embeddings using nomic-embed-text...'',
       Success success_message,
       Text (check_mark @ '' document.pdf'')],
      (4, [PathExists ''document.pdf'', LoaderLoad ''document.pdf'',
           SplitDocuments 256 32 [sample_page], FromDocuments [sample_page] ''nomic-embed-text'',
           PathExists ''document.pdf'']))"
  by (simp add: run_defs sample_defs)

lemma session_after_first_run:
  "session_run sample_env [(click_process, 0)] None = Some indexed_session"
  by (simp add: first_run)

lemmas ranked_defs =
  ranked_env_def ranked_session_def five_chunks_def sample_embedding_def sample_distance_def
  nearest_def fans_question_def fans_sources_def fans_messages_def fans_page_def

lemma ranked_first_run:
  "init_session_state (session_run ranked_env [(click_process, 0)] None) = ranked_session"
  by (simp add: run_defs sample_defs ranked_defs)

lemma ranked_nearest:
  "nearest (sample_distance (sample_embedding fans_question)) five_chunks 3 = fans_sources"
  by (simp add: ranked_defs)

lemma ranked_query:
  "query_handler ranked_env fans_question ranked_session (w, []) =
     (ranked_session, fans_page,
      (Suc (Suc (Suc w)),
       [SimilaritySearch five_chunks fans_question 3,
        LlmInvoke ''llama3.2'' 0 fans_messages,
        SimilaritySearch five_chunks fans_question 3]))"
  by (simp add: run_defs sample_defs ranked_defs prompt_messages_def format_docs_def)

subsection \<open>Ingest\<close>

text \<open>
  C1. When no file exists at the configured PDF path, \<open>ingest_pdf\<close> returns the failure
  triple with the "not found" message and no index. The only call the run adds to the
  log is the existence check: the log holds the index constructions it held before and
  no other, and \<open>ingest_pdf\<close> itself puts nothing on the page.
\<close>

theorem ingest_missing_file:
  assumes "\<not> fst (path_exists env PDF_PATH w)"
  shows "ingest_pdf env (w, log) =
           ((False, not_found_message, None), [],
            (snd (path_exists env PDF_PATH w), log @ [PathExists PDF_PATH])) \<and>
         constructions (snd (snd (snd (ingest_pdf env (w, log))))) = constructions log"
  using assms
  by (cases "path_exists env PDF_PATH w")
    (simp add: ingest_pdf_def call_path_exists_def constructions_append)

theorem ingest_missing_file_witness:
  "\<not> fst (path_exists missing_env PDF_PATH 0) \<and>
   ingest_pdf missing_env (0, []) =
     ((False, not_found_message, None), [], (1, [PathExists ''document.pdf''])) \<and>
   constructions (snd (snd (snd (ingest_pdf missing_env (0, []))))) = []"
  using ingest_missing_file [of missing_env 0 "[]"]
  by (simp add: missing_env_def sample_env_def PDF_PATH_def)

text \<open>
  C2. When the file exists and the loader, the splitter or the embedder raises an
  exception \<open>e\<close>, \<open>ingest_pdf\<close> returns the failure triple whose message is the cross
  mark, \<open>Error:\<close> and \<open>str e\<close>, with no index; and the button's handler returns the
  session state it was given, index and pipeline included. (An exception here is an
  instance of Python's \<^verbatim>\<open>Exception\<close>, which is what the handler catches.)
\<close>

theorem ingest_exception_caught:
  assumes exists: "path_exists env PDF_PATH w = (True, w1)"
    and raised:
      "loader_load env PDF_PATH w1 = (Inl e, w2) \<or>
       (\<exists>documents. loader_load env PDF_PATH w1 = (Inr documents, w2) \<and>
          split_documents env CHUNK_SIZE CHUNK_OVERLAP documents = Inl e) \<or>
       (\<exists>documents chunks w'. loader_load env PDF_PATH w1 = (Inr documents, w') \<and>
          split_documents env CHUNK_SIZE CHUNK_OVERLAP documents = Inr chunks \<and>
          from_documents env chunks EMBEDDING_MODEL w' = (Inl e, w2))"
  shows "fst (ingest_pdf env (w, log)) = (False, error_message e, None) \<and>
         fst (snd (snd (ingest_pdf env (w, log)))) = w2 \<and>
         fst (process_pdf_button env m ss (w, log)) = ss"
proof -
  have r: "fst (ingest_pdf env (w, log)) = (False, error_message e, None) \<and>
         fst (snd (snd (ingest_pdf env (w, log)))) = w2"
    using exists raised
    by (auto simp: ingest_pdf_def call_path_exists_def load_and_split_pdf_def
        call_loader_load_def call_split_documents_def create_vectorstore_def
        call_from_documents_def Let_def)
  then have "\<not> fst (fst (ingest_pdf env (w, log)))" by simp
  then have "fst (process_pdf_button env m ss (w, log)) = ss"
    by (rule process_pdf_button_failure)
  with r show ?thesis by simp
qed

theorem ingest_exception_caught_witness:
  "path_exists bad_pdf_env PDF_PATH 0 = (True, 1) \<and>
   loader_load bad_pdf_env PDF_PATH 1 = (Inl (Exception ''EOF marker not found''), 2) \<and>
   fst (ingest_pdf bad_pdf_env (0, [])) =
     (False, cross_mark @ '' Error: EOF marker not found'', None) \<and>
   fst (process_pdf_button bad_pdf_env ''llama3.2'' indexed_session (0, [])) = indexed_session \<and>
   path_exists no_ollama_env PDF_PATH 0 = (True, 1) \<and>
   loader_load no_ollama_env PDF_PATH 1 = (Inr [sample_page], 2) \<and>
   split_documents no_ollama_env CHUNK_SIZE CHUNK_OVERLAP [sample_page] = Inr [sample_page] \<and>
   from_documents no_ollama_env [sample_page] EMBEDDING_MODEL 2 =
     (Inl (Exception ''Connection refused''), 3) \<and>
   fst (ingest_pdf no_ollama_env (0, [])) =
     (False, cross_mark @ '' Error: Connection refused'', None) \<and>
   fst (process_pdf_button no_ollama_env ''llama3.2'' indexed_session (0, [])) = indexed_session"
proof -
  have a: "path_exists bad_pdf_env PDF_PATH 0 = (True, 1)"
    by (simp add: sample_defs)
  have b: "loader_load bad_pdf_env PDF_PATH 1 = (Inl (Exception ''EOF marker not found''), 2)"
    by (simp add: sample_defs)
  have c: "path_exists no_ollama_env PDF_PATH 0 = (True, 1)"
    by (simp add: sample_defs)
  have d: "loader_load no_ollama_env PDF_PATH 1 = (Inr [sample_page], 2)"
    by (simp add: no_ollama_env_def sample_env_def)
  have e: "split_documents no_ollama_env CHUNK_SIZE CHUNK_OVERLAP [sample_page] = Inr [sample_page]"
    by (simp add: no_ollama_env_def sample_env_def)
  have f: "from_documents no_ollama_env [sample_page] EMBEDDING_MODEL 2 =
     (Inl (Exception ''Connection refused''), 3)"
    by (simp add: no_ollama_env_def sample_env_def)
  have g: "\<exists>documents chunks w'. loader_load no_ollama_env PDF_PATH 1 = (Inr documents, w') \<and>
          split_documents no_ollama_env CHUNK_SIZE CHUNK_OVERLAP documents = Inr chunks \<and>
          from_documents no_ollama_env chunks EMBEDDING_MODEL w' =
            (Inl (Exception ''Connection refused''), 3)"
    using d e f by blast
  from ingest_exception_caught [of bad_pdf_env 0 1 "Exception ''EOF marker not found''" 2
      "[]" "''llama3.2''" indexed_session, OF a] b
  have first: "fst (ingest_pdf bad_pdf_env (0, [])) =
     (False, cross_mark @ '' Error: EOF marker not found'', None) \<and>
   fst (process_pdf_button bad_pdf_env ''llama3.2'' indexed_session (0, [])) = indexed_session"
    by (simp add: error_message_def)
  from ingest_exception_caught [of no_ollama_env 0 1 "Exception ''Connection refused''" 3
      "[]" "''llama3.2''" indexed_session, OF c] g
  have second: "fst (ingest_pdf no_ollama_env (0, [])) =
     (False, cross_mark @ '' Error: Connection refused'', None) \<and>
   fst (process_pdf_button no_ollama_env ''llama3.2'' indexed_session (0, [])) = indexed_session"
    by (simp add: error_message_def)
  from a b c d e f first second show ?thesis by simp
qed

text \<open>
  C10. The success flag that \<open>ingest_pdf\<close> returns is true exactly when the index it
  returns is not \<^verbatim>\<open>None\<close>, in every world.
\<close>

theorem ingest_success_iff_index:
  "(case fst (ingest_pdf env x) of
      (success, message, vs) \<Rightarrow> success = (vs \<noteq> None))"
  using ingest_pdf_flag [of env x] by (cases "fst (ingest_pdf env x)") auto

theorem ingest_success_iff_index_witness:
  "fst (ingest_pdf sample_env (0, [])) = (True, success_message, Some [sample_page]) \<and>
   fst (ingest_pdf missing_env (0, [])) = (False, not_found_message, None)"
proof -
  have a: "fst (ingest_pdf sample_env (0, [])) = (True, success_message, Some [sample_page])"
    by (simp add: run_defs sample_defs)
  have b: "fst (ingest_pdf missing_env (0, [])) = (False, not_found_message, None)"
    by (simp add: run_defs sample_defs)
  from ingest_success_iff_index [of sample_env "(0, [])"]
    ingest_success_iff_index [of missing_env "(0, [])"] a b
  show ?thesis by simp
qed

subsection \<open>Query\<close>

text \<open>
  C5. The retriever that \<open>initialize_qa_chain\<close> builds, alone and inside the chain, has
  \<open>k = 3\<close>. Take a session state that a session can reach and that holds an index
  \<open>vs\<close> and a pipeline, and a query with question \<open>q\<close> from it. The query searches,
  and every search it makes is of the stored index \<open>vs\<close>, with the question \<open>q\<close> as
  asked and \<open>k = 3\<close>. When the index answers a search with the \<open>k\<close> chunks nearest
  to the question, the page shows at most 3 source texts, and a query that puts no
  error on the page shows the previews (the first 500 characters and three dots) of
  the 3 chunks of \<open>vs\<close> nearest to \<open>q\<close>, in that order.
\<close>

theorem retrieval_k_fixed_at_three:
  assumes index:
      "\<And>vs q k w docs w'.
         similarity_search env vs q k w = (Inr docs, w') \<Longrightarrow>
         docs = nearest (dist q) (contents vs) k"
    and reachable: "ss = init_session_state (session_run env hist None)"
    and indexed: "vectorstore ss = Some vs" "qa_chain ss \<noteq> None"
    and run: "query_handler env q ss (w, []) = (ss', out, (w', log))"
  shows "search_k (retriever (initialize_qa_chain vs m)) = 3 \<and>
         search_k (chain_retriever (chain (initialize_qa_chain vs m))) = 3 \<and>
         searches log \<noteq> [] \<and> set (searches log) = {(vs, q, 3)} \<and>
         length (texts out) \<le> 3 \<and>
         (errors out = [] \<longrightarrow>
            texts out =
              map (\<lambda>d. take 500 (page_content d) @ ''...'') (nearest (dist q) (contents vs) 3))"
proof -
  from reachable indexed obtain m' where
    ss: "ss = \<lparr>vectorstore = Some vs, qa_chain = Some (initialize_qa_chain vs m')\<rparr>"
    by (rule reachable_indexed)
  have found: "\<forall>q k w docs w'. similarity_search env vs q k w = (Inr docs, w') \<longrightarrow>
      docs = nearest (dist q) (contents vs) k"
    using index by blast
  note r = query_handler_retrieval [where found = "\<lambda>q k. nearest (dist q) (contents vs) k",
      OF found run [unfolded ss]]
  have k: "search_k (retriever (initialize_qa_chain vs m)) = 3 \<and>
         search_k (chain_retriever (chain (initialize_qa_chain vs m))) = 3"
    by (simp add: initialize_qa_chain_def Let_def)
  have len: "length (texts out) \<le> 3"
    using r(5) length_nearest [of "dist q" "contents vs" 3] by auto
  from k r(2) r(3) len r(6) show ?thesis by simp
qed

theorem retrieval_k_fixed_at_three_witness:
  "init_session_state (session_run ranked_env [(click_process, 0)] None) = ranked_session \<and>
   vectorstore ranked_session = Some five_chunks \<and>
   qa_chain ranked_session \<noteq> None \<and>
   length five_chunks = 5 \<and>
   query_handler ranked_env fans_question ranked_session (5, []) =
     (ranked_session, fans_page,
      (8, [SimilaritySearch five_chunks fans_question 3,
           LlmInvoke ''llama3.2'' 0 fans_messages,
           SimilaritySearch five_chunks fans_question 3])) \<and>
   set (searches [SimilaritySearch five_chunks fans_question 3,
                  LlmInvoke ''llama3.2'' 0 fans_messages,
                  SimilaritySearch five_chunks fans_question 3]) =
     {(five_chunks, fans_question, 3)} \<and>
   errors fans_page = [] \<and>
   texts fans_page = [''A fan cools it....'', ''Two fans....'', ''Fans: 2...''] \<and>
   nearest (sample_distance (sample_embedding fans_question)) five_chunks 3 = fans_sources"
proof -
  have index: "\<And>vs q k w docs w'.
      similarity_search ranked_env vs q k w = (Inr docs, w') \<Longrightarrow>
      docs = nearest (sample_distance (sample_embedding q)) vs k"
    by (auto simp: ranked_env_def)
  have reachable:
    "ranked_session = init_session_state (session_run ranked_env [(click_process, 0)] None)"
    by (simp only: ranked_first_run)
  have indexed: "vectorstore ranked_session = Some five_chunks" "qa_chain ranked_session \<noteq> None"
    by (simp_all add: ranked_session_def)
  have run: "query_handler ranked_env fans_question ranked_session (5, []) =
     (ranked_session, fans_page,
      (8, [SimilaritySearch five_chunks fans_question 3,
           LlmInvoke ''llama3.2'' 0 fans_messages,
           SimilaritySearch five_chunks fans_question 3]))"
    by (simp add: ranked_query)
  have page: "errors fans_page = []" by (simp add: fans_page_def)
  have five: "length five_chunks = 5" by (simp add: five_chunks_def)
  note t = retrieval_k_fixed_at_three [where dist = "\<lambda>q. sample_distance (sample_embedding q)"
      and contents = "\<lambda>vs. vs" and m = "''llama3.2''", OF index reachable indexed run]
  from t page ranked_nearest ranked_first_run indexed run five show ?thesis
    by (simp add: fans_sources_def)
qed

text \<open>
  C6. Let the index be searched by the embedding of the question: a search that
  returns documents returns \<open>lookup vs (embedding q) k\<close>, whatever the world it is
  made in (\<open>embedding\<close> is the fixed embedding model, \<open>lookup\<close> the search of an
  index that is not changed). Take a reachable session state with an index \<open>vs\<close> and a
  pipeline, and two queries with the same question \<open>q\<close> one after the other, in any two
  worlds. Then both leave the session state as it was; both search the index \<open>vs\<close> with
  \<open>q\<close> and \<open>k = 3\<close> and nothing else; every call of the model, in either query, is
  sent the system prompt and the texts of the chunks \<open>lookup vs (embedding q) 3\<close>,
  joined by empty lines, as context, followed by the question; and a query that puts
  no error on the page calls the model once and shows the previews of these same
  chunks as sources. So two such queries show the same sources, which are the chunks
  of the generation context.
\<close>

theorem retrieval_repeatable:
  assumes fixed:
      "\<And>vs q k w docs w'.
         similarity_search env vs q k w = (Inr docs, w') \<Longrightarrow> docs = lookup vs (embedding q) k"
    and reachable: "ss = init_session_state (session_run env hist None)"
    and indexed: "vectorstore ss = Some vs" "qa_chain ss \<noteq> None"
    and first: "query_handler env q ss (w, []) = (ss1, out1, (w1, log1))"
    and second: "query_handler env q ss1 (w', []) = (ss2, out2, (w2, log2))"
  shows "ss1 = ss \<and> ss2 = ss \<and>
         searches log1 \<noteq> [] \<and> set (searches log1) = {(vs, q, 3)} \<and>
         searches log2 \<noteq> [] \<and> set (searches log2) = {(vs, q, 3)} \<and>
         (\<forall>(m, t, msgs) \<in> set (generations log1 @ generations log2).
            msgs =
              [(''system'', system_prompt),
               (''human'',
                ''Context:'' @ [CHR 0x0A] @
                drop 2 (concat (map (\<lambda>d. [CHR 0x0A, CHR 0x0A] @ page_content d)
                                  (lookup vs (embedding q) 3))) @
                [CHR 0x0A, CHR 0x0A] @ ''Question: '' @ q @ [CHR 0x0A, CHR 0x0A] @ ''Answer:'')]) \<and>
         (errors out1 = [] \<longrightarrow>
            length (generations log1) = 1 \<and>
            texts out1 =
              map (\<lambda>d. take 500 (page_content d) @ ''...'') (lookup vs (embedding q) 3)) \<and>
         (errors out2 = [] \<longrightarrow>
            length (generations log2) = 1 \<and>
            texts out2 =
              map (\<lambda>d. take 500 (page_content d) @ ''...'') (lookup vs (embedding q) 3)) \<and>
         (errors out1 = [] \<and> errors out2 = [] \<longrightarrow> texts out1 = texts out2)"
proof -
  from reachable indexed obtain m where
    ss: "ss = \<lparr>vectorstore = Some vs, qa_chain = Some (initialize_qa_chain vs m)\<rparr>"
    by (rule reachable_indexed)
  have found: "\<forall>q k w docs w'. similarity_search env vs q k w = (Inr docs, w') \<longrightarrow>
      docs = lookup vs (embedding q) k"
    using fixed by blast
  note r1 = query_handler_retrieval [where found = "\<lambda>q k. lookup vs (embedding q) k",
      OF found first [unfolded ss]]
  from r1(1) ss have s1: "ss1 = ss" by simp
  note r2 = query_handler_retrieval [where found = "\<lambda>q k. lookup vs (embedding q) k",
      OF found second [unfolded s1 ss]]
  from r2(1) ss have s2: "ss2 = ss" by simp
  have g: "\<forall>(m, t, msgs) \<in> set (generations log1 @ generations log2).
      msgs = prompt_messages (format_docs (lookup vs (embedding q) 3)) q"
    using r1(4) r2(4) by auto
  from s1 s2 r1(2) r1(3) r2(2) r2(3) g r1(6) r2(6) show ?thesis
    by (simp add: prompt_messages_explicit)
qed

theorem retrieval_repeatable_witness:
  "init_session_state (session_run ranked_env [(click_process, 0)] None) = ranked_session \<and>
   vectorstore ranked_session = Some five_chunks \<and>
   qa_chain ranked_session \<noteq> None \<and>
   query_handler ranked_env fans_question ranked_session (5, []) =
     (ranked_session, fans_page,
      (8, [SimilaritySearch five_chunks fans_question 3,
           LlmInvoke ''llama3.2'' 0 fans_messages,
           SimilaritySearch five_chunks fans_question 3])) \<and>
   query_handler ranked_env fans_question ranked_session (20, []) =
     (ranked_session, fans_page,
      (23, [SimilaritySearch five_chunks fans_question 3,
            LlmInvoke ''llama3.2'' 0 fans_messages,
            SimilaritySearch five_chunks fans_question 3])) \<and>
   errors fans_page = [] \<and>
   texts fans_page = [''A fan cools it....'', ''Two fans....'', ''Fans: 2...''] \<and>
   nearest (sample_distance (sample_embedding fans_question)) five_chunks 3 = fans_sources \<and>
   generations [SimilaritySearch five_chunks fans_question 3,
                LlmInvoke ''llama3.2'' 0 fans_messages,
                SimilaritySearch five_chunks fans_question 3] =
     [(''llama3.2'', 0, fans_messages)]"
proof -
  have fixed: "\<And>vs q k w docs w'.
      similarity_search ranked_env vs q k w = (Inr docs, w') \<Longrightarrow>
      docs = nearest (sample_distance (sample_embedding q)) vs k"
    by (auto simp: ranked_env_def)
  have reachable:
    "ranked_session = init_session_state (session_run ranked_env [(click_process, 0)] None)"
    by (simp only: ranked_first_run)
  have indexed: "vectorstore ranked_session = Some five_chunks" "qa_chain ranked_session \<noteq> None"
    by (simp_all add: ranked_session_def)
  have first: "query_handler ranked_env fans_question ranked_session (5, []) =
     (ranked_session, fans_page,
      (8, [SimilaritySearch five_chunks fans_question 3,
           LlmInvoke ''llama3.2'' 0 fans_messages,
           SimilaritySearch five_chunks fans_question 3]))"
    by (simp add: ranked_query)
  have second: "query_handler ranked_env fans_question ranked_session (20, []) =
     (ranked_session, fans_page,
      (23, [SimilaritySearch five_chunks fans_question 3,
            LlmInvoke ''llama3.2'' 0 fans_messages,
            SimilaritySearch five_chunks fans_question 3]))"
    by (simp add: ranked_query)
  have page: "errors fans_page = []" by (simp add: fans_page_def)
  note t = retrieval_repeatable [where lookup = "\<lambda>vs v k. nearest (sample_distance v) vs k"
      and embedding = sample_embedding, OF fixed reachable indexed first second]
  from t page ranked_nearest ranked_first_run indexed first second show ?thesis
    by (simp add: fans_sources_def)
qed

subsection \<open>Session state\<close>

text \<open>
  C7. After any sequence of runs of the script from a new session, the session state
  is paired: a stored pipeline is the one built from the stored index. And whenever
  the ingest of a Process PDF click succeeds, it returns an index, and the session
  state the handler leaves holds that index and a pipeline built from it and the
  current model name.
\<close>

theorem pipeline_paired_with_index:
  "paired (init_session_state (session_run env hist None)) \<and>
   (fst (ingest_pdf env x) = (True, msg, v) \<longrightarrow>
      (\<exists>vs. v = Some vs \<and>
         fst (process_pdf_button env m ss x) =
           \<lparr>vectorstore = Some vs, qa_chain = Some (initialize_qa_chain vs m)\<rparr>))"
proof -
  have inv: "paired (init_session_state (session_run env hist None))"
    using paired_init_None by (rule session_run_paired)
  have "\<exists>vs. v = Some vs \<and>
         fst (process_pdf_button env m ss x) =
           \<lparr>vectorstore = Some vs, qa_chain = Some (initialize_qa_chain vs m)\<rparr>"
    if ok: "fst (ingest_pdf env x) = (True, msg, v)"
  proof -
    from ok ingest_pdf_flag [of env x] obtain vs where v: "v = Some vs" by auto
    from ok have "fst (fst (ingest_pdf env x))" by simp
    then have "fst (process_pdf_button env m ss x) =
        ss\<lparr>vectorstore := Some vs, qa_chain := Some (initialize_qa_chain vs m)\<rparr>"
      using ok v by (simp add: process_pdf_button_success)
    then have "fst (process_pdf_button env m ss x) =
        \<lparr>vectorstore = Some vs, qa_chain = Some (initialize_qa_chain vs m)\<rparr>"
      by (cases ss) simp
    with v show ?thesis by simp
  qed
  with inv show ?thesis by simp
qed

theorem pipeline_paired_with_index_witness:
  "paired (init_session_state (session_run sample_env [(click_process, 0), (ask_fans, 4)] None)) \<and>
   fst (ingest_pdf sample_env (0, [])) = (True, success_message, Some [sample_page]) \<and>
   fst (process_pdf_button sample_env ''llama3.2'' (init_session_state None) (0, [])) =
     \<lparr>vectorstore = Some [sample_page],
      qa_chain = Some (initialize_qa_chain [sample_page] ''llama3.2'')\<rparr>"
proof -
  have ok: "fst (ingest_pdf sample_env (0, [])) = (True, success_message, Some [sample_page])"
    by (simp add: run_defs sample_defs)
  from pipeline_paired_with_index [of sample_env "[(click_process, 0), (ask_fans, 4)]"
      "(0, [])" success_message "Some [sample_page]" "''llama3.2''" "init_session_state None"] ok
  show ?thesis by simp
qed

text \<open>
  C8. From a session state that holds an index and a pipeline, the query handler, the
  main part of the page and a whole run of the script without a click on Process PDF
  return the session state unchanged, on every branch (answer, failed retrieval,
  failed generation).
\<close>

theorem query_leaves_session_unchanged:
  assumes "vectorstore ss \<noteq> None" and "qa_chain ss \<noteq> None"
  shows "fst (query_handler env q ss x) = ss \<and>
         fst (main_interface env inp ss x) = ss \<and>
         fst (script_run env (inp\<lparr>inp_process_pdf := False\<rparr>) (Some ss) x) = ss"
  by (simp add: query_handler_state main_interface_state script_run_state init_session_state_def)

theorem query_leaves_session_unchanged_witness:
  "vectorstore indexed_session \<noteq> None \<and> qa_chain indexed_session \<noteq> None \<and>
   fst (query_handler sample_env ''How many fans?'' indexed_session (5, [])) = indexed_session \<and>
   fst (query_handler llm_down_env ''How many fans?'' indexed_session (5, [])) = indexed_session \<and>
   fst (main_interface sample_env ask_fans indexed_session (5, [])) = indexed_session \<and>
   fst (script_run sample_env ask_fans (Some indexed_session) (5, [])) = indexed_session"
proof -
  have a: "vectorstore indexed_session \<noteq> None" and b: "qa_chain indexed_session \<noteq> None"
    by (simp_all add: indexed_session_def)
  have c: "ask_fans\<lparr>inp_process_pdf := False\<rparr> = ask_fans"
    by (simp add: ask_fans_def)
  from query_leaves_session_unchanged [OF a b, of sample_env "''How many fans?''" "(5, [])" ask_fans]
    query_leaves_session_unchanged [OF a b, of llm_down_env "''How many fans?''" "(5, [])" ask_fans]
    a b c
  show ?thesis by simp
qed

text \<open>
  C9. In a run without a click on Process PDF the text of the model-name field changes
  nothing: the run returns the same session state, page and log for every text, and the
  stored pipeline is the one of the run before. Every model call of such a run, after
  any history of runs, uses the model name that was in the field at the last click on
  Process PDF whose ingest succeeded.
\<close>

theorem stale_pipeline_reused:
  assumes "\<not> inp_process_pdf inp"
  shows "script_run env (inp\<lparr>inp_model_name := m'\<rparr>) st x = script_run env inp st x \<and>
         qa_chain (fst (script_run env inp st x)) = qa_chain (init_session_state st) \<and>
         (\<forall>(m, t, msgs) \<in>
              set (generations (snd (snd (snd (script_run env inp (session_run env hist None) (w, [])))))).
            last_ingest_model env hist None = Some m)"
proof -
  have a: "script_run env (inp\<lparr>inp_model_name := m'\<rparr>) st x = script_run env inp st x"
    using assms by (simp add: script_run_no_click main_interface_model_name)
  have b: "qa_chain (fst (script_run env inp st x)) = qa_chain (init_session_state st)"
    using assms by (simp add: script_run_state)
  let ?ss = "init_session_state (session_run env hist None)"
  have m: "stored_model ?ss = last_ingest_model env hist None"
    using stored_model_session_run [of env hist None]
    by (simp add: stored_model_def init_session_state_def)
  obtain e w1 where p: "path_exists env PDF_PATH w = (e, w1)"
    by (cases "path_exists env PDF_PATH w")
  have c: "\<forall>(m, t, msgs) \<in>
              set (generations (snd (snd (snd (script_run env inp (session_run env hist None) (w, [])))))).
            last_ingest_model env hist None = Some m"
    using assms p m main_interface_generations [of env inp ?ss w1 "[PathExists PDF_PATH]"]
    by (auto simp: script_run_no_click call_path_exists_def split: prod.splits)
  from a b c show ?thesis by blast
qed

theorem stale_pipeline_reused_witness:
  "\<not> inp_process_pdf ask_fans \<and>
   script_run sample_env (ask_fans\<lparr>inp_model_name := ''phi3''\<rparr>) (Some indexed_session) (4, []) =
     script_run sample_env ask_fans (Some indexed_session) (4, []) \<and>
   qa_chain (fst (script_run sample_env ask_fans (Some indexed_session) (4, []))) =
     Some (initialize_qa_chain [sample_page] ''llama3.2'') \<and>
   map fst (generations (snd (snd (snd
       (script_run sample_env ask_fans (session_run sample_env [(click_process, 0)] None) (4, []))))))
     = [''llama3.2''] \<and>
   last_ingest_model sample_env [(click_process, 0)] None = Some ''llama3.2''"
proof -
  have a: "\<not> inp_process_pdf ask_fans" by (simp add: ask_fans_def)
  have g: "map fst (generations (snd (snd (snd
       (script_run sample_env ask_fans (Some indexed_session) (4, []))))))
     = [''llama3.2'']"
    by (simp add: run_defs sample_defs)
  have s: "session_run sample_env [(click_process, 0)] None = Some indexed_session"
    by (rule session_after_first_run)
  have l: "last_ingest_model sample_env [(click_process, 0)] None = Some ''llama3.2''"
    by (simp add: run_defs sample_defs)
  note t = stale_pipeline_reused [OF a, of sample_env "''phi3''" "Some indexed_session" "(4, [])"
      "[(click_process, 0)]" 4, unfolded s l]
  from t a g l show ?thesis
    unfolding s by (simp add: init_session_state_def indexed_session_def)
qed

end
